theory Spec2Isabelle
  imports Complex_Main
begin

section \<open>The heap-snapshot plugin (snapshot_server.js)\<close>

text \<open>
  The plugin reads the heap statistics of the process, logs them, and writes a heap
  snapshot file unless the heap is above a threshold. Its only inputs are answers of the
  runtime (V8, the clock, the logging module of the host application); its only outputs
  are calls to that runtime. The model therefore has two parts: a \<open>world\<close> that fixes how
  the runtime answers during one callback, and a \<open>run\<close>: the list of calls the code makes,
  in order, together with the way the code ends (returning, or raising a value).
\<close>

subsection \<open>JavaScript values\<close>

text \<open>
  Values that can be thrown, caught and passed to the logger. Of an object only the
  property \<open>message\<close> matters here (it is the only property the code reads): it is absent,
  a data property, or an accessor whose getter raises. An \<open>Error\<close> object with message
  \<open>m\<close> is \<open>JsObject (DataMessage (JsString m))\<close>.
\<close>

datatype js_value =
    JsUndefined
  | JsNull
  | JsBoolean bool
  | JsNumber int
  | JsString string
  | JsObject message_prop
and message_prop =
    NoMessage
  | DataMessage js_value
  | ThrowingGetter js_value

abbreviation JsError :: "string \<Rightarrow> js_value" where
  "JsError m \<equiv> JsObject (DataMessage (JsString m))"

text \<open>The \<open>TypeError\<close> that V8 raises when a property of \<open>null\<close> or \<open>undefined\<close> is read.\<close>

definition TypeError_reading_message :: "string \<Rightarrow> js_value" where
  "TypeError_reading_message base =
     JsError (''Cannot read properties of '' @ base @ '' (reading '' @ [CHR 0x27] @ ''message''
              @ [CHR 0x27] @ '')'')"

text \<open>
  The expression \<open>err.message\<close>: \<open>Inl\<close> is the value it raises, \<open>Inr\<close> the value it
  yields. Reading a property of \<open>null\<close> or \<open>undefined\<close> raises; a boolean, a number or a
  string has no property \<open>message\<close>, so the read yields \<open>undefined\<close>.
\<close>

fun get_message :: "js_value \<Rightarrow> js_value + js_value" where
  "get_message JsUndefined = Inl (TypeError_reading_message ''undefined'')"
| "get_message JsNull = Inl (TypeError_reading_message ''null'')"
| "get_message (JsObject NoMessage) = Inr JsUndefined"
| "get_message (JsObject (DataMessage v)) = Inr v"
| "get_message (JsObject (ThrowingGetter e)) = Inl e"
| "get_message (JsBoolean b) = Inr JsUndefined"
| "get_message (JsNumber n) = Inr JsUndefined"
| "get_message (JsString s) = Inr JsUndefined"

subsection \<open>Numbers as text\<close>

text \<open>
  Template literals and \<open>toFixed\<close> turn numbers into decimal text. \<open>decimal_digits\<close> is
  the decimal representation of a natural number, most significant digit first.
\<close>

definition digit_char :: "nat \<Rightarrow> char" where
  "digit_char d = char_of (48 + d)"

fun decimal_digits :: "nat \<Rightarrow> string" where
  "decimal_digits n =
     (if n < 10 then [digit_char n]
      else decimal_digits (n div 10) @ [digit_char (n mod 10)])"

declare decimal_digits.simps [simp del]

text \<open>
  \<open>Number::toString\<close> on an integral number (of absolute value below \<open>10^21\<close>, which
  holds for every millisecond time value and for the constants of the plugin): the
  decimal digits, after a minus sign when negative.
\<close>

definition ToString :: "int \<Rightarrow> string" where
  "ToString i = (if i < 0 then ''-'' @ decimal_digits (nat (- i)) else decimal_digits (nat i))"

text \<open>
  \<open>Number.prototype.toFixed(f)\<close>, following the steps of ECMA-262 for a finite number
  below \<open>10^21\<close>: \<open>n\<close> is the integer for which \<open>n / 10^f - x\<close> is closest to zero, the
  larger one of two; its digits are padded with zeros to at least \<open>f + 1\<close> characters and
  the point is put before the last \<open>f\<close>. The argument is the exact value of the double,
  a rational number.
\<close>

definition toFixed :: "nat \<Rightarrow> rat \<Rightarrow> string" where
  "toFixed f x0 =
     (let s = (if x0 < 0 then ''-'' else '''');
          x = (if x0 < 0 then - x0 else x0);
          n = nat \<lfloor>x * 10 ^ f + 1 / 2\<rfloor>;
          m = (if n = 0 then ''0'' else decimal_digits n);
          m = (if f \<noteq> 0
               then (let k = length m;
                         m = (if k \<le> f then replicate (f + 1 - k) (CHR ''0'') @ m else m);
                         k = (if k \<le> f then f + 1 else k)
                     in take (k - f) m @ ''.'' @ drop (k - f) m)
               else m)
      in s @ m)"

subsection \<open>The runtime: events, the world, runs\<close>

datatype level = Info | Warn | Error

text \<open>
  One event per call that leaves the plugin: reading the heap statistics
  (\<open>v8.getHeapStatistics()\<close>), reading the memory usage (\<open>process.memoryUsage()\<close>),
  reading the clock (\<open>Date.now()\<close>), asking V8 to write a snapshot to a file
  (\<open>v8.writeHeapSnapshot(filename)\<close>), and a call of \<open>logInfo\<close>, \<open>logWarn\<close> or
  \<open>logError\<close> with its arguments.
\<close>

datatype event =
    HeapStatisticsRead
  | MemoryUsageRead
  | ClockRead
  | WriteHeapSnapshot string
  | Log level "js_value list"

text \<open>
  How the runtime answers during one callback. A call that can fail either raises a value
  (\<open>Inl\<close>, or \<open>Some\<close> for a call whose result is not used) or returns. The heap sizes are
  byte counts (\<open>used_heap_size\<close>, \<open>heapUsed\<close>): integral numbers far below \<open>2^53\<close>, so
  the doubles that hold them and their quotients by \<open>1024\<close> are exact. The logging
  functions belong to the host application (its module \<open>server/console\<close>); of a logging
  call the model keeps the level, the arguments, and whether the call returns.
\<close>

record world =
  heap_stats :: "js_value + nat"
  memory_usage :: "js_value + nat"
  date_now :: int
  write_outcome :: "string \<Rightarrow> js_value option"
  log_outcome :: "level \<Rightarrow> js_value list \<Rightarrow> js_value option"

type_synonym 'a run = "event list \<times> (js_value + 'a)"

definition return_run :: "'a \<Rightarrow> 'a run" where
  "return_run a = ([], Inr a)"

text \<open>Sequencing: the second part runs only when the first returned.\<close>

definition bind_run :: "'a run \<Rightarrow> ('a \<Rightarrow> 'b run) \<Rightarrow> 'b run" where
  "bind_run m k =
     (case m of
        (tr, Inl e) \<Rightarrow> (tr, Inl e)
      | (tr, Inr a) \<Rightarrow> (case k a of (tr', r) \<Rightarrow> (tr @ tr', r)))"

text \<open>\<open>try { m } catch (err) { h err }\<close>: the handler runs only when the body raised.\<close>

definition try_catch :: "'a run \<Rightarrow> (js_value \<Rightarrow> 'a run) \<Rightarrow> 'a run" where
  "try_catch m h =
     (case m of
        (tr, Inr a) \<Rightarrow> (tr, Inr a)
      | (tr, Inl e) \<Rightarrow> (case h e of (tr', r) \<Rightarrow> (tr @ tr', r)))"

definition outcome :: "js_value option \<Rightarrow> js_value + unit" where
  "outcome r = (case r of None \<Rightarrow> Inr () | Some e \<Rightarrow> Inl e)"

definition getHeapStatistics :: "world \<Rightarrow> nat run" where
  "getHeapStatistics w = ([HeapStatisticsRead], heap_stats w)"

definition memoryUsage :: "world \<Rightarrow> nat run" where
  "memoryUsage w = ([MemoryUsageRead], memory_usage w)"

definition Date_now :: "world \<Rightarrow> int run" where
  "Date_now w = ([ClockRead], Inr (date_now w))"

definition writeHeapSnapshot :: "world \<Rightarrow> string \<Rightarrow> unit run" where
  "writeHeapSnapshot w filename = ([WriteHeapSnapshot filename], outcome (write_outcome w filename))"

definition logInfo :: "world \<Rightarrow> js_value list \<Rightarrow> unit run" where
  "logInfo w args = ([Log Info args], outcome (log_outcome w Info args))"

definition logWarn :: "world \<Rightarrow> js_value list \<Rightarrow> unit run" where
  "logWarn w args = ([Log Warn args], outcome (log_outcome w Warn args))"

definition logError :: "world \<Rightarrow> js_value list \<Rightarrow> unit run" where
  "logError w args = ([Log Error args], outcome (log_outcome w Error args))"

subsection \<open>The plugin\<close>

definition SNAPSHOT_INTERVAL_HOURS :: int where
  "SNAPSHOT_INTERVAL_HOURS = 6"

definition SAFE_HEAP_THRESHOLD_MB :: int where
  "SAFE_HEAP_THRESHOLD_MB = 250"

text \<open>
  \<open>takeSnapshot\<close>, statement by statement. \<open>rootDir\<close> is the module constant
  \<open>path.dirname(require.main.filename)\<close>, fixed when the plugin is loaded.
\<close>

definition takeSnapshot :: "string \<Rightarrow> world \<Rightarrow> unit run" where
  "takeSnapshot rootDir w =
     bind_run (getHeapStatistics w) (\<lambda>used_heap_size.
       let heapUsedMB = (rat_of_nat used_heap_size) / (1024 * 1024) in
       bind_run (logInfo w
           [JsString (''[SNAPSHOT] Current heap used: '' @ toFixed 1 heapUsedMB @ '' MB'')]) (\<lambda>_.
         if heapUsedMB > rat_of_int SAFE_HEAP_THRESHOLD_MB then
           bind_run (logError w
               [JsString (''Snapshot skipped: heap '' @ toFixed 1 heapUsedMB @ '' MB > safe ''
                          @ ToString SAFE_HEAP_THRESHOLD_MB @ '' MB'')]) (\<lambda>_.
             return_run ())
         else
           bind_run (Date_now w) (\<lambda>now.
             let filename = rootDir @ ''/heap-'' @ ToString now @ ''.heapsnapshot'' in
             try_catch
               (bind_run (writeHeapSnapshot w filename) (\<lambda>_.
                  logInfo w
                    [JsString (''[SNAPSHOT] Snapshot written: '' @ filename @ '' (used ''
                               @ toFixed 1 heapUsedMB @ '' MB)'')]))
               (\<lambda>err.
                  bind_run ([], get_message err) (\<lambda>message.
                    logError w [JsString ''[SNAPSHOT] Snapshot failed:'', message])))))"

text \<open>The callbacks registered when the module is loaded.\<close>

definition on_SIGUSR2 :: "string \<Rightarrow> world \<Rightarrow> unit run" where
  "on_SIGUSR2 rootDir w =
     bind_run (logInfo w [JsString ''[SNAPSHOT] SIGUSR2 --> taking snapshot'']) (\<lambda>_.
       takeSnapshot rootDir w)"

definition periodic_snapshot_check :: "string \<Rightarrow> world \<Rightarrow> unit run" where
  "periodic_snapshot_check rootDir w =
     bind_run (logInfo w [JsString ''[SNAPSHOT] Periodic snapshot check'']) (\<lambda>_.
       takeSnapshot rootDir w)"

definition usage_report :: "world \<Rightarrow> unit run" where
  "usage_report w =
     bind_run (memoryUsage w) (\<lambda>heapUsed.
       logInfo w
         [JsString (''[SNAPSHOT] Heap used: '' @ toFixed 1 (rat_of_nat heapUsed / 1024 / 1024)
                    @ '' MB'')])"

definition startup_reminder :: "world \<Rightarrow> unit run" where
  "startup_reminder w =
     logWarn w [JsString
       ''[SNAPSHOT] Snapshot is running - be sure to read all instructions in the file'']"

text \<open>
  The registrations made by the module body, in source order, with the delay in
  milliseconds. The body is given for any value \<open>hours\<close> of the constant
  \<open>SNAPSHOT_INTERVAL_HOURS\<close>; the module itself is the instance at the constant.
\<close>

datatype registration =
    ProcessOn string "world \<Rightarrow> unit run"
  | SetInterval "world \<Rightarrow> unit run" int
  | SetTimeout "world \<Rightarrow> unit run" int

definition module_body :: "int \<Rightarrow> string \<Rightarrow> registration list" where
  "module_body hours rootDir =
     [ProcessOn ''SIGUSR2'' (on_SIGUSR2 rootDir),
      SetInterval (periodic_snapshot_check rootDir) (hours * 60 * 60 * 1000),
      SetInterval usage_report (1 * 60 * 60 * 1000),
      SetTimeout startup_reminder (60 * 1000)]"

definition snapshot_server :: "string \<Rightarrow> registration list" where
  "snapshot_server rootDir = module_body SNAPSHOT_INTERVAL_HOURS rootDir"

subsection \<open>Observations on a run\<close>

text \<open>
  The file names of the snapshot writes attempted, and the arguments of the \<open>logError\<close>
  calls made, in order.
\<close>

fun writes :: "event list \<Rightarrow> string list" where
  "writes [] = []"
| "writes (WriteHeapSnapshot f # es) = f # writes es"
| "writes (e # es) = writes es"


text \<open>
  The value of a string of decimal digits, read from the left with an accumulator; it
  is the inverse of \<open>decimal_digits\<close> and is used to show that different numbers have
  different texts.
\<close>

fun digits_value :: "nat \<Rightarrow> string \<Rightarrow> nat" where
  "digits_value acc [] = acc"
| "digits_value acc (c # cs) = digits_value (10 * acc + (of_char c - 48)) cs"

text \<open>
  Shorthand for the expressions of \<open>takeSnapshot\<close>: the heap usage in megabytes, the test
  of the guard, the file name and the texts of the log lines. They are abbreviations, so a
  statement that uses one is a statement about the text written out in \<open>takeSnapshot\<close>.
\<close>

abbreviation heapUsedMB_of :: "nat \<Rightarrow> rat" where
  "heapUsedMB_of used_heap_size \<equiv> rat_of_nat used_heap_size / (1024 * 1024)"

abbreviation over_threshold :: "nat \<Rightarrow> bool" where
  "over_threshold used_heap_size \<equiv>
     heapUsedMB_of used_heap_size > rat_of_int SAFE_HEAP_THRESHOLD_MB"

abbreviation current_heap_line :: "nat \<Rightarrow> js_value" where
  "current_heap_line used_heap_size \<equiv>
     JsString (''[SNAPSHOT] Current heap used: '' @ toFixed 1 (heapUsedMB_of used_heap_size)
               @ '' MB'')"

abbreviation skipped_line :: "nat \<Rightarrow> js_value" where
  "skipped_line used_heap_size \<equiv>
     JsString (''Snapshot skipped: heap '' @ toFixed 1 (heapUsedMB_of used_heap_size)
               @ '' MB > safe '' @ ToString SAFE_HEAP_THRESHOLD_MB @ '' MB'')"

abbreviation snapshot_filename :: "string \<Rightarrow> int \<Rightarrow> string" where
  "snapshot_filename rootDir now \<equiv> rootDir @ ''/heap-'' @ ToString now @ ''.heapsnapshot''"

abbreviation written_line :: "string \<Rightarrow> nat \<Rightarrow> js_value" where
  "written_line filename used_heap_size \<equiv>
     JsString (''[SNAPSHOT] Snapshot written: '' @ filename @ '' (used ''
               @ toFixed 1 (heapUsedMB_of used_heap_size) @ '' MB)'')"

abbreviation failed_line :: js_value where
  "failed_line \<equiv> JsString ''[SNAPSHOT] Snapshot failed:''"

text \<open>
  The \<open>try\<close> block of \<open>takeSnapshot\<close> makes the snapshot write and then, when the write
  returned, the log call for the written line: the value the block raises, if any, and the
  events of the block.
\<close>

abbreviation try_block_raises :: "world \<Rightarrow> string \<Rightarrow> nat \<Rightarrow> js_value option" where
  "try_block_raises w filename used_heap_size \<equiv>
     (case write_outcome w filename of
        Some e \<Rightarrow> Some e
      | None \<Rightarrow> log_outcome w Info [written_line filename used_heap_size])"

abbreviation try_block_events :: "world \<Rightarrow> string \<Rightarrow> nat \<Rightarrow> event list" where
  "try_block_events w filename used_heap_size \<equiv>
     WriteHeapSnapshot filename #
       (case write_outcome w filename of
          Some e \<Rightarrow> []
        | None \<Rightarrow> [Log Info [written_line filename used_heap_size]])"

subsection \<open>Example worlds\<close>

text \<open>
  Concrete answers of the runtime, used to run the plugin on examples: a logger whose
  calls return, a snapshot write that returns, one that raises a given value, and a world
  with a given heap size in bytes at the time \<open>1700000000000\<close>.
\<close>

definition logger_returns :: "level \<Rightarrow> js_value list \<Rightarrow> js_value option" where
  "logger_returns lvl args = None"

definition logger_raises :: "js_value \<Rightarrow> level \<Rightarrow> js_value list \<Rightarrow> js_value option" where
  "logger_raises e lvl args = Some e"

definition write_returns :: "string \<Rightarrow> js_value option" where
  "write_returns filename = None"

definition write_raises :: "js_value \<Rightarrow> string \<Rightarrow> js_value option" where
  "write_raises e filename = Some e"

definition example_world :: "nat \<Rightarrow> (string \<Rightarrow> js_value option) \<Rightarrow> world" where
  "example_world bytes wr =
     \<lparr>heap_stats = Inr bytes, memory_usage = Inr bytes, date_now = 1700000000000,
      write_outcome = wr, log_outcome = logger_returns\<rparr>"

definition later_world :: "nat \<Rightarrow> (string \<Rightarrow> js_value option) \<Rightarrow> world" where
  "later_world bytes wr = (example_world bytes wr)\<lparr>date_now := 1700000000001\<rparr>"

definition heap_read_fails_world :: world where
  "heap_read_fails_world =
     (example_world 104857600 write_returns)\<lparr>heap_stats := Inl (JsError ''heap statistics'')\<rparr>"

definition logger_fails_world :: world where
  "logger_fails_world =
     (example_world 104857600 write_returns)\<lparr>log_outcome := logger_raises (JsError ''EPIPE'')\<rparr>"

text \<open>
  A logger that raises on one given list of arguments and returns on every other, and
  the world at 100 MB in which the write returns and the log call for the written line
  raises.
\<close>

definition logger_raises_on ::
    "js_value list \<Rightarrow> js_value \<Rightarrow> level \<Rightarrow> js_value list \<Rightarrow> js_value option" where
  "logger_raises_on target e lvl args = (if args = target then Some e else None)"

definition written_log_fails_world :: world where
  "written_log_fails_world =
     (example_world 104857600 write_returns)
       \<lparr>log_outcome := logger_raises_on
          [JsString
            ''[SNAPSHOT] Snapshot written: /app/heap-1700000000000.heapsnapshot (used 100.0 MB)'']
          (JsError ''EPIPE'')\<rparr>"

section \<open>Properties\<close>

subsection \<open>Running the primitives\<close>

lemmas run_defs = bind_run_def try_catch_def return_run_def outcome_def getHeapStatistics_def
  memoryUsage_def Date_now_def writeHeapSnapshot_def logInfo_def logWarn_def logError_def

lemmas example_defs = example_world_def later_world_def logger_returns_def logger_raises_def
  write_returns_def write_raises_def heap_read_fails_world_def logger_fails_world_def

text \<open>The paths through \<open>takeSnapshot\<close>, one lemma for each.\<close>

lemma takeSnapshot_heap_read_raises:
  "heap_stats w = Inl e \<Longrightarrow> takeSnapshot rootDir w = ([HeapStatisticsRead], Inl e)"
  by (simp add: takeSnapshot_def run_defs)

lemma takeSnapshot_first_log_raises:
  "heap_stats w = Inr used \<Longrightarrow> log_outcome w Info [current_heap_line used] = Some e \<Longrightarrow>
   takeSnapshot rootDir w = ([HeapStatisticsRead, Log Info [current_heap_line used]], Inl e)"
  by (simp add: takeSnapshot_def run_defs Let_def)

lemma takeSnapshot_skip:
  "heap_stats w = Inr used \<Longrightarrow> log_outcome w Info [current_heap_line used] = None \<Longrightarrow>
   over_threshold used \<Longrightarrow>
   takeSnapshot rootDir w =
     ([HeapStatisticsRead, Log Info [current_heap_line used], Log Error [skipped_line used]],
      outcome (log_outcome w Error [skipped_line used]))"
  by (simp add: takeSnapshot_def run_defs Let_def split: option.splits)

lemma takeSnapshot_written:
  "heap_stats w = Inr used \<Longrightarrow> log_outcome w Info [current_heap_line used] = None \<Longrightarrow>
   \<not> over_threshold used \<Longrightarrow>
   write_outcome w (snapshot_filename rootDir (date_now w)) = None \<Longrightarrow>
   log_outcome w Info [written_line (snapshot_filename rootDir (date_now w)) used] = None \<Longrightarrow>
   takeSnapshot rootDir w =
     ([HeapStatisticsRead, Log Info [current_heap_line used], ClockRead,
       WriteHeapSnapshot (snapshot_filename rootDir (date_now w)),
       Log Info [written_line (snapshot_filename rootDir (date_now w)) used]],
      Inr ())"
  by (simp add: takeSnapshot_def run_defs Let_def split: option.splits)


lemma takeSnapshot_failed_unreadable:
  "heap_stats w = Inr used \<Longrightarrow> log_outcome w Info [current_heap_line used] = None \<Longrightarrow>
   \<not> over_threshold used \<Longrightarrow>
   write_outcome w (snapshot_filename rootDir (date_now w)) = Some err \<Longrightarrow>
   get_message err = Inl e \<Longrightarrow>
   takeSnapshot rootDir w =
     ([HeapStatisticsRead, Log Info [current_heap_line used], ClockRead,
       WriteHeapSnapshot (snapshot_filename rootDir (date_now w))],
      Inl e)"
  by (simp add: takeSnapshot_def run_defs Let_def split: option.splits)

text \<open>
  The run below the threshold in general: the \<open>try\<close> block raises nothing; or it raises a
  value whose \<open>message\<close> cannot be read, and the read's own failure leaves the handler; or
  it raises a value with message \<open>m\<close>, and the handler calls \<open>logError\<close>.
\<close>

lemma takeSnapshot_under:
  "heap_stats w = Inr used \<Longrightarrow> log_outcome w Info [current_heap_line used] = None \<Longrightarrow>
   \<not> over_threshold used \<Longrightarrow>
   takeSnapshot rootDir w =
     (case try_block_raises w (snapshot_filename rootDir (date_now w)) used of
        None \<Rightarrow>
          ([HeapStatisticsRead, Log Info [current_heap_line used], ClockRead]
             @ try_block_events w (snapshot_filename rootDir (date_now w)) used,
           Inr ())
      | Some err \<Rightarrow>
          (case get_message err of
             Inl e \<Rightarrow>
               ([HeapStatisticsRead, Log Info [current_heap_line used], ClockRead]
                  @ try_block_events w (snapshot_filename rootDir (date_now w)) used,
                Inl e)
           | Inr m \<Rightarrow>
               ([HeapStatisticsRead, Log Info [current_heap_line used], ClockRead]
                  @ try_block_events w (snapshot_filename rootDir (date_now w)) used
                  @ [Log Error [failed_line, m]],
                outcome (log_outcome w Error [failed_line, m]))))"
  by (simp add: takeSnapshot_def run_defs Let_def split: option.splits sum.splits)

text \<open>
  Reading \<open>message\<close> raises for \<open>undefined\<close>, for \<open>null\<close> and for an object whose getter
  raises, and for no other value.
\<close>

lemma get_message_raises_iff:
  "(\<exists>e. get_message v = Inl e)
     = (v = JsUndefined \<or> v = JsNull \<or> (\<exists>e. v = JsObject (ThrowingGetter e)))"
  by (cases v rule: get_message.cases) simp_all

text \<open>
  Below the threshold the write is attempted once, whatever the write and the later log
  calls do.
\<close>

lemma writes_takeSnapshot_under:
  "heap_stats w = Inr used \<Longrightarrow> log_outcome w Info [current_heap_line used] = None \<Longrightarrow>
   \<not> over_threshold used \<Longrightarrow>
   writes (fst (takeSnapshot rootDir w)) = [snapshot_filename rootDir (date_now w)]"
  by (simp add: takeSnapshot_def run_defs Let_def split: option.splits sum.splits prod.splits)

lemma writes_takeSnapshot_subset:
  "WriteHeapSnapshot f \<in> set (fst (takeSnapshot rootDir w)) \<Longrightarrow>
   f = snapshot_filename rootDir (date_now w)"
  by (auto simp add: takeSnapshot_def run_defs Let_def
      split: option.splits sum.splits prod.splits if_splits)

text \<open>Every call of \<open>takeSnapshot\<close> begins by reading the heap statistics.\<close>

lemma takeSnapshot_starts_with_heap_read:
  "\<exists>tr. fst (takeSnapshot rootDir w) = HeapStatisticsRead # tr"
  by (auto simp add: takeSnapshot_def run_defs Let_def
      split: option.splits sum.splits prod.splits if_splits)

text \<open>
  A failure of the heap read or of a logging call outside the \<open>try\<close> block reaches the
  caller.
\<close>

lemma heap_read_failure_propagates:
  "takeSnapshot ''/app'' heap_read_fails_world
     = ([HeapStatisticsRead], Inl (JsError ''heap statistics''))"
  by (simp add: takeSnapshot_heap_read_raises example_defs)

lemma logger_failure_propagates:
  "snd (takeSnapshot ''/app'' logger_fails_world) = Inl (JsError ''EPIPE'')"
  by (simp add: takeSnapshot_first_log_raises [where used = 104857600] example_defs)

subsection \<open>Decimal text\<close>

lemma digits_value_append:
  "digits_value acc (xs @ ys) = digits_value (digits_value acc xs) ys"
  by (induction xs arbitrary: acc) simp_all

lemma of_char_digit_char: "d < 10 \<Longrightarrow> of_char (digit_char d) = 48 + d"
  by (simp add: digit_char_def)

lemma digits_value_decimal_digits: "digits_value 0 (decimal_digits n) = n"
proof (induction n rule: decimal_digits.induct)
  case (1 n)
  show ?case
  proof (cases "n < 10")
    case True
    then show ?thesis
      by (subst decimal_digits.simps) (simp add: of_char_digit_char)
  next
    case False
    with 1 have "digits_value 0 (decimal_digits (n div 10)) = n div 10" by simp
    with False show ?thesis
      by (subst decimal_digits.simps) (simp add: digits_value_append of_char_digit_char)
  qed
qed

lemma decimal_digits_inj: "decimal_digits m = decimal_digits n \<Longrightarrow> m = n"
  by (metis digits_value_decimal_digits)

lemma digit_char_not_minus: "d < 10 \<Longrightarrow> digit_char d \<noteq> CHR ''-''"
proof
  assume "d < 10" and "digit_char d = CHR ''-''"
  then have "(of_char (digit_char d) :: nat) = of_char (CHR ''-'')" by simp
  with \<open>d < 10\<close> show False by (simp add: of_char_digit_char)
qed

lemma decimal_digits_first: "\<exists>d cs. d < 10 \<and> decimal_digits n = digit_char d # cs"
proof (induction n rule: decimal_digits.induct)
  case (1 n)
  show ?case
  proof (cases "n < 10")
    case True
    then show ?thesis by (subst decimal_digits.simps) auto
  next
    case False
    with 1 obtain d cs where "d < 10" "decimal_digits (n div 10) = digit_char d # cs" by auto
    with False show ?thesis by (subst decimal_digits.simps) auto
  qed
qed

lemma ToString_inj: "ToString i = ToString j \<Longrightarrow> i = j"
proof -
  assume eq: "ToString i = ToString j"
  have neg_pos: False if "a < 0" "\<not> b < 0" "ToString a = ToString b" for a b
  proof -
    obtain d cs where "d < 10" "decimal_digits (nat b) = digit_char d # cs"
      using decimal_digits_first by blast
    with that show False by (auto simp: ToString_def dest: digit_char_not_minus)
  qed
  show ?thesis
  proof (cases "i < 0"; cases "j < 0")
    assume "i < 0" "j < 0"
    with eq have "nat (- i) = nat (- j)" by (auto simp: ToString_def dest: decimal_digits_inj)
    with \<open>i < 0\<close> \<open>j < 0\<close> show ?thesis by simp
  next
    assume "i < 0" "\<not> j < 0"
    with eq neg_pos show ?thesis by blast
  next
    assume "\<not> i < 0" "j < 0"
    with eq neg_pos [of j i] show ?thesis by simp
  next
    assume "\<not> i < 0" "\<not> j < 0"
    with eq have "nat i = nat j" by (auto simp: ToString_def dest: decimal_digits_inj)
    with \<open>\<not> i < 0\<close> \<open>\<not> j < 0\<close> show ?thesis by simp
  qed
qed

text \<open>The texts that the examples below produce.\<close>

lemma digit_chars:
  "digit_char 0 = CHR ''0''" "digit_char (Suc 0) = CHR ''1''" "digit_char 2 = CHR ''2''"
  "digit_char 3 = CHR ''3''" "digit_char 4 = CHR ''4''" "digit_char 5 = CHR ''5''"
  "digit_char 6 = CHR ''6''" "digit_char 7 = CHR ''7''" "digit_char 8 = CHR ''8''"
  "digit_char 9 = CHR ''9''"
  by code_simp+

lemma ToString_examples:
  "ToString 250 = ''250''" "ToString 1700000000000 = ''1700000000000''"
  "ToString 1700000000001 = ''1700000000001''"
  by (simp_all add: ToString_def decimal_digits.simps digit_chars)

lemma toFixed_examples:
  "toFixed (Suc 0) 300 = ''300.0''" "toFixed (Suc 0) 250 = ''250.0''"
  "toFixed (Suc 0) 100 = ''100.0''"
  by code_simp+

subsection \<open>The threshold guard\<close>



text \<open>
  Claim C3. When the heap usage in megabytes is at most \<open>SAFE_HEAP_THRESHOLD_MB\<close>,
  equality included (and the heap-usage log call returns), \<open>takeSnapshot\<close> attempts
  exactly one snapshot write, and its file name holds the time read from the clock during
  the call.
\<close>

theorem one_write_when_not_over_threshold:
  assumes "heap_stats w = Inr used_heap_size"
    and "rat_of_nat used_heap_size / (1024 * 1024) \<le> rat_of_int SAFE_HEAP_THRESHOLD_MB"
    and "log_outcome w Info [current_heap_line used_heap_size] = None"
  shows "writes (fst (takeSnapshot rootDir w))
           = [rootDir @ ''/heap-'' @ ToString (date_now w) @ ''.heapsnapshot'']"
  using assms by (simp add: writes_takeSnapshot_under not_less)

text \<open>At exactly 250 MB (262144000 bytes) the snapshot is written.\<close>

theorem one_write_when_not_over_threshold_witness:
  "writes (fst (takeSnapshot ''/app'' (example_world 262144000 write_returns)))
     = [''/app/heap-1700000000000.heapsnapshot'']"
  using one_write_when_not_over_threshold
    [of "example_world 262144000 write_returns" 262144000 "''/app''"]
  by (simp add: example_defs SAFE_HEAP_THRESHOLD_MB_def ToString_examples)

text \<open>
  Claim C9. Whether \<open>takeSnapshot\<close> attempts a write depends only on the used heap size it
  read and on the constant threshold: two calls that read the same size (in worlds that
  may differ in everything else, once the heap-usage log call has returned) both attempt
  a write or both attempt none, and they attempt none exactly when the size is over the
  threshold.
\<close>

theorem decision_depends_on_heap_reading_only:
  assumes "heap_stats w1 = Inr used_heap_size" and "heap_stats w2 = Inr used_heap_size"
    and "log_outcome w1 Info [current_heap_line used_heap_size] = None"
    and "log_outcome w2 Info [current_heap_line used_heap_size] = None"
  shows "(writes (fst (takeSnapshot rootDir1 w1)) = [])
           = (writes (fst (takeSnapshot rootDir2 w2)) = [])
       \<and> (writes (fst (takeSnapshot rootDir1 w1)) = [])
           = (rat_of_nat used_heap_size / (1024 * 1024) > rat_of_int SAFE_HEAP_THRESHOLD_MB)"
proof (cases "over_threshold used_heap_size")
  case True
  with assms show ?thesis by (simp add: takeSnapshot_skip)
next
  case False
  with assms show ?thesis by (simp add: writes_takeSnapshot_under)
qed

theorem decision_depends_on_heap_reading_only_witness:
  "(writes (fst (takeSnapshot ''/app'' (example_world 104857600 write_returns))) = [])
     = (writes (fst (takeSnapshot ''/srv''
          (later_world 104857600 (write_raises (JsError ''ENOSPC''))))) = [])
   \<and> writes (fst (takeSnapshot ''/app'' (example_world 104857600 write_returns))) \<noteq> []"
  using decision_depends_on_heap_reading_only
    [of "example_world 104857600 write_returns" 104857600
        "later_world 104857600 (write_raises (JsError ''ENOSPC''))" "''/app''" "''/srv''"]
  by (auto simp add: example_defs SAFE_HEAP_THRESHOLD_MB_def)

subsection \<open>The snapshot file name\<close>

text \<open>
  Claim C5. Every snapshot write that \<open>takeSnapshot\<close> attempts has the path
  \<open>rootDir/heap-N.heapsnapshot\<close>, where \<open>N\<close> is the decimal text of the time in
  milliseconds that \<open>Date.now()\<close> gave during the call.
\<close>

theorem write_path_form:
  assumes "WriteHeapSnapshot filename \<in> set (fst (takeSnapshot rootDir w))"
  shows "filename = rootDir @ ''/heap-'' @ ToString (date_now w) @ ''.heapsnapshot''"
  using assms by (rule writes_takeSnapshot_subset)

theorem write_path_form_witness:
  "WriteHeapSnapshot ''/app/heap-1700000000000.heapsnapshot''
     \<in> set (fst (takeSnapshot ''/app'' (example_world 104857600 write_returns)))
   \<and> ''/app/heap-1700000000000.heapsnapshot''
       = ''/app'' @ ''/heap-'' @ ToString (date_now (example_world 104857600 write_returns))
         @ ''.heapsnapshot''"
proof -
  have run: "takeSnapshot ''/app'' (example_world 104857600 write_returns) =
     ([HeapStatisticsRead, Log Info [JsString ''[SNAPSHOT] Current heap used: 100.0 MB''],
       ClockRead, WriteHeapSnapshot ''/app/heap-1700000000000.heapsnapshot'',
       Log Info [JsString
         ''[SNAPSHOT] Snapshot written: /app/heap-1700000000000.heapsnapshot (used 100.0 MB)'']],
      Inr ())"
    by (simp add: takeSnapshot_written [where used = 104857600] example_defs
        SAFE_HEAP_THRESHOLD_MB_def toFixed_examples ToString_examples)
  then have mem: "WriteHeapSnapshot ''/app/heap-1700000000000.heapsnapshot''
     \<in> set (fst (takeSnapshot ''/app'' (example_world 104857600 write_returns)))"
    by simp
  from mem write_path_form [OF mem] show ?thesis by (rule conjI)
qed

text \<open>
  Claim C6. Two calls of \<open>takeSnapshot\<close> at different times, both with the heap usage
  not over the threshold, attempt writes to two different file names: the file name is
  injective in the time.
\<close>

theorem filenames_distinct:
  assumes "heap_stats w1 = Inr used1" and "heap_stats w2 = Inr used2"
    and "rat_of_nat used1 / (1024 * 1024) \<le> rat_of_int SAFE_HEAP_THRESHOLD_MB"
    and "rat_of_nat used2 / (1024 * 1024) \<le> rat_of_int SAFE_HEAP_THRESHOLD_MB"
    and "log_outcome w1 Info [current_heap_line used1] = None"
    and "log_outcome w2 Info [current_heap_line used2] = None"
    and "date_now w1 \<noteq> date_now w2"
  shows "writes (fst (takeSnapshot rootDir w1)) = [snapshot_filename rootDir (date_now w1)]
       \<and> writes (fst (takeSnapshot rootDir w2)) = [snapshot_filename rootDir (date_now w2)]
       \<and> snapshot_filename rootDir (date_now w1) \<noteq> snapshot_filename rootDir (date_now w2)"
  using assms by (auto simp add: writes_takeSnapshot_under not_less dest: ToString_inj)

theorem filenames_distinct_witness:
  "writes (fst (takeSnapshot ''/app'' (example_world 104857600 write_returns)))
     = [''/app/heap-1700000000000.heapsnapshot'']
   \<and> writes (fst (takeSnapshot ''/app'' (later_world 262144000 write_returns)))
     = [''/app/heap-1700000000001.heapsnapshot'']
   \<and> ''/app/heap-1700000000000.heapsnapshot'' \<noteq> ''/app/heap-1700000000001.heapsnapshot''"
  using filenames_distinct
    [of "example_world 104857600 write_returns" 104857600
        "later_world 262144000 write_returns" 262144000 "''/app''"]
  by (simp add: example_defs SAFE_HEAP_THRESHOLD_MB_def ToString_examples)

subsection \<open>Failures\<close>



text \<open>
  Claim C2 says that \<open>takeSnapshot\<close> returns however the heap read, the logging calls or
  the snapshot write fail, also when the write raises an arbitrary value. It does not:
  when the write raises \<open>null\<close>, the handler's \<open>err.message\<close> raises a \<open>TypeError\<close>, which
  leaves \<open>takeSnapshot\<close> before any call of \<open>logError\<close>.
\<close>

theorem write_raising_null_counterexample:
  "takeSnapshot ''/app'' (example_world 104857600 (write_raises JsNull)) =
     ([HeapStatisticsRead, Log Info [JsString ''[SNAPSHOT] Current heap used: 100.0 MB''],
       ClockRead, WriteHeapSnapshot ''/app/heap-1700000000000.heapsnapshot''],
      Inl (TypeError_reading_message ''null''))"
  by (simp add: takeSnapshot_failed_unreadable [where used = 104857600 and err = JsNull]
      example_defs SAFE_HEAP_THRESHOLD_MB_def toFixed_examples ToString_examples)

text \<open>
  Claim C2, amended. \<open>takeSnapshot\<close> returns to its caller exactly when the heap read
  returns, the log call for the heap-usage line returns, and: over the threshold, the
  \<open>logError\<close> call for the skip line returns; otherwise, the \<open>try\<close> block (the snapshot
  write, then the log call for the written line) raises nothing, or it raises a value
  whose \<open>message\<close> can be read without raising (a value that is not \<open>null\<close>, not
  \<open>undefined\<close> and not an object whose \<open>message\<close> getter raises) and the \<open>logError\<close> call
  that reports it returns. A value with a readable message \<open>m\<close> raised inside the \<open>try\<close>
  block, by the write or by the log call for the written line, is caught, and the last
  call of the run is then \<open>logError\<close> with the text \<open>[SNAPSHOT] Snapshot failed:\<close> and
  \<open>m\<close>. Whenever \<open>takeSnapshot\<close> returns, its last call is a log call.
\<close>

theorem takeSnapshot_returns_normally:
  "((snd (takeSnapshot rootDir w) = Inr ()) =
      (\<exists>used_heap_size.
          heap_stats w = Inr used_heap_size
        \<and> log_outcome w Info [current_heap_line used_heap_size] = None
        \<and> (if over_threshold used_heap_size
           then log_outcome w Error [skipped_line used_heap_size] = None
           else (case try_block_raises w (snapshot_filename rootDir (date_now w))
                        used_heap_size of
                   None \<Rightarrow> True
                 | Some err \<Rightarrow>
                     (case get_message err of
                        Inl e \<Rightarrow> False
                      | Inr m \<Rightarrow> log_outcome w Error [failed_line, m] = None)))))
   \<and> (\<forall>used_heap_size err m.
          heap_stats w = Inr used_heap_size
        \<and> log_outcome w Info [current_heap_line used_heap_size] = None
        \<and> \<not> over_threshold used_heap_size
        \<and> try_block_raises w (snapshot_filename rootDir (date_now w)) used_heap_size = Some err
        \<and> get_message err = Inr m
        \<longrightarrow> last (fst (takeSnapshot rootDir w)) = Log Error [failed_line, m])
   \<and> (snd (takeSnapshot rootDir w) = Inr ()
        \<longrightarrow> (\<exists>lvl args. last (fst (takeSnapshot rootDir w)) = Log lvl args))"
proof (cases "heap_stats w")
  case (Inl e)
  then show ?thesis by (simp add: takeSnapshot_heap_read_raises)
next
  case (Inr used)
  note heap = this
  show ?thesis
  proof (cases "log_outcome w Info [current_heap_line used]")
    case (Some e)
    with heap show ?thesis by (simp add: takeSnapshot_first_log_raises)
  next
    case None
    note first = this
    show ?thesis
    proof (cases "over_threshold used")
      case True
      with heap first show ?thesis
        by (simp add: takeSnapshot_skip outcome_def split: option.splits)
    next
      case False
      with heap first show ?thesis
        by (simp add: takeSnapshot_under outcome_def split: option.splits sum.splits)
    qed
  qed
qed

text \<open>
  At 100 MB, with a write that returns and a log call for the written line that raises
  an error with message \<open>EPIPE\<close>: the failure is caught, reported and not passed on.
\<close>

theorem takeSnapshot_returns_normally_witness:
  "snd (takeSnapshot ''/app'' written_log_fails_world) = Inr ()
   \<and> last (fst (takeSnapshot ''/app'' written_log_fails_world))
       = Log Error [JsString ''[SNAPSHOT] Snapshot failed:'', JsString ''EPIPE'']"
  using takeSnapshot_returns_normally [of "''/app''" written_log_fails_world]
  by (simp add: written_log_fails_world_def logger_raises_on_def example_defs
      SAFE_HEAP_THRESHOLD_MB_def toFixed_examples ToString_examples)

text \<open>
  Two runs on either side of the line drawn above: a log call that raises inside the
  \<open>try\<close> block is absorbed, and a raised object whose \<open>message\<close> getter raises is not.
\<close>

lemma written_log_failure_absorbed:
  "takeSnapshot ''/app'' written_log_fails_world =
     ([HeapStatisticsRead, Log Info [JsString ''[SNAPSHOT] Current heap used: 100.0 MB''],
       ClockRead, WriteHeapSnapshot ''/app/heap-1700000000000.heapsnapshot'',
       Log Info [JsString
         ''[SNAPSHOT] Snapshot written: /app/heap-1700000000000.heapsnapshot (used 100.0 MB)''],
       Log Error [JsString ''[SNAPSHOT] Snapshot failed:'', JsString ''EPIPE'']],
      Inr ())"
  by (simp add: takeSnapshot_under [where used = 104857600] written_log_fails_world_def
      logger_raises_on_def example_defs outcome_def
      SAFE_HEAP_THRESHOLD_MB_def toFixed_examples ToString_examples)

lemma throwing_getter_propagates:
  "snd (takeSnapshot ''/app''
         (example_world 104857600 (write_raises (JsObject (ThrowingGetter (JsError ''getter''))))))
     = Inl (JsError ''getter'')"
  by (simp add: takeSnapshot_under [where used = 104857600] example_defs
      SAFE_HEAP_THRESHOLD_MB_def)

subsection \<open>The shape of a run\<close>



subsection \<open>The registered callbacks\<close>

text \<open>
  Claim C7. The module registers a handler for \<open>SIGUSR2\<close>; the handler first logs that
  the signal was received and then (when that log call returns) calls \<open>takeSnapshot\<close>, so
  that its run is the signal line followed by the run of \<open>takeSnapshot\<close> in the same
  world.
\<close>

theorem sigusr2_logs_then_takes_snapshot:
  assumes "log_outcome w Info [JsString ''[SNAPSHOT] SIGUSR2 --> taking snapshot''] = None"
  shows "ProcessOn ''SIGUSR2'' (on_SIGUSR2 rootDir) \<in> set (snapshot_server rootDir)
       \<and> on_SIGUSR2 rootDir w =
           (Log Info [JsString ''[SNAPSHOT] SIGUSR2 --> taking snapshot'']
              # fst (takeSnapshot rootDir w),
            snd (takeSnapshot rootDir w))"
  using assms
  by (simp add: snapshot_server_def module_body_def on_SIGUSR2_def
      bind_run_def logInfo_def outcome_def split: prod.splits sum.splits)

theorem sigusr2_logs_then_takes_snapshot_witness:
  "on_SIGUSR2 ''/app'' (example_world 314572800 write_returns) =
     ([Log Info [JsString ''[SNAPSHOT] SIGUSR2 --> taking snapshot''],
       HeapStatisticsRead,
       Log Info [JsString ''[SNAPSHOT] Current heap used: 300.0 MB''],
       Log Error [JsString ''Snapshot skipped: heap 300.0 MB > safe 250 MB'']],
      Inr ())"
proof -
  have run: "takeSnapshot ''/app'' (example_world 314572800 write_returns) =
     ([HeapStatisticsRead,
       Log Info [JsString ''[SNAPSHOT] Current heap used: 300.0 MB''],
       Log Error [JsString ''Snapshot skipped: heap 300.0 MB > safe 250 MB'']],
      Inr ())"
    by (simp add: takeSnapshot_skip [where used = 314572800] example_defs outcome_def
        SAFE_HEAP_THRESHOLD_MB_def toFixed_examples ToString_examples)
  have "log_outcome (example_world 314572800 write_returns) Info
          [JsString ''[SNAPSHOT] SIGUSR2 --> taking snapshot''] = None"
    by (simp add: example_defs)
  from sigusr2_logs_then_takes_snapshot [OF this, of "''/app''"] run show ?thesis by simp
qed

text \<open>
  Claim C8. The usage report is registered with \<open>setInterval\<close> at a delay of one hour
  (3600000 ms), whatever the value of \<open>SNAPSHOT_INTERVAL_HOURS\<close>. Each time it runs it
  reads the memory usage and logs \<open>heapUsed / 1024 / 1024\<close> to one decimal place; it does
  not call \<open>takeSnapshot\<close> (whose first step, the heap statistics read, is absent) and it
  attempts no snapshot write, whatever the heap usage.
\<close>

theorem usage_report_logs_only:
  assumes "memory_usage w = Inr heapUsed"
  shows "SetInterval usage_report (60 * 60 * 1000) \<in> set (module_body hours rootDir)
       \<and> fst (usage_report w) =
           [MemoryUsageRead,
            Log Info [JsString (''[SNAPSHOT] Heap used: ''
                                @ toFixed 1 (rat_of_nat heapUsed / 1024 / 1024) @ '' MB'')]]
       \<and> writes (fst (usage_report w)) = []
       \<and> HeapStatisticsRead \<notin> set (fst (usage_report w))"
  using assms
  by (simp add: module_body_def usage_report_def bind_run_def memoryUsage_def logInfo_def)

text \<open>At 300 MB, over the threshold of \<open>takeSnapshot\<close>, the report is one log line.\<close>

theorem usage_report_logs_only_witness:
  "SetInterval usage_report 3600000 \<in> set (snapshot_server ''/app'')
   \<and> fst (usage_report (example_world 314572800 write_returns)) =
       [MemoryUsageRead, Log Info [JsString ''[SNAPSHOT] Heap used: 300.0 MB'']]
   \<and> writes (fst (usage_report (example_world 314572800 write_returns))) = []
   \<and> HeapStatisticsRead \<notin> set (fst (usage_report (example_world 314572800 write_returns)))"
  using usage_report_logs_only
    [of "example_world 314572800 write_returns" 314572800 SNAPSHOT_INTERVAL_HOURS "''/app''"]
  by (simp add: example_defs snapshot_server_def toFixed_examples)

end
